theory Spec2Isabelle
  imports Main
begin

section \<open>Data model of \<^verbatim>\<open>Interpreters/ExpressionActions.h\<close>\<close>

text \<open>
  Values, columns and data types are opaque collaborators of the header
  (\<^verbatim>\<open>ColumnPtr\<close>, \<^verbatim>\<open>DataTypePtr\<close>). They are given the little structure
  the glossary of the specification names: a column is constant (one value with a
  logical length) or full (one value per row); a data type is a named scalar type or an
  array of a nested type. A \<^verbatim>\<open>ColumnPtr\<close> may be null, which is \<open>None\<close>.
\<close>

datatype Field = Int64 int | Array "Field list"

datatype IColumn = ColumnConst Field nat | ColumnFull "Field list"

type_synonym ColumnPtr = "IColumn option"

datatype IDataType = DataTypeNumber string | DataTypeArray IDataType

type_synonym DataTypePtr = IDataType

text \<open>
  \<^verbatim>\<open>enum class ActionType\<close> and \<^verbatim>\<open>struct Node\<close>, field by field. Nodes live in the
  arena \<^verbatim>\<open>std::list<Node>\<close> of their DAG; a \<^verbatim>\<open>Node *\<close> is the position of the
  node in that arena. The three function pointers are opaque handles, \<open>None\<close> when null.
\<close>

datatype ActionType = INPUT | COLUMN | ALIAS | ARRAY_JOIN | FUNCTION

type_synonym NodePtr = nat

record Node =
  children :: "NodePtr list"
  type :: ActionType
  result_name :: string
  result_type :: DataTypePtr
  function_builder :: "nat option"
  function_base :: "nat option"
  function_exec :: "nat option"
  is_function_compiled :: bool
  column :: ColumnPtr
  allow_constant_folding :: bool

type_synonym Nodes = "Node list"

text \<open>
  Everything that can go wrong in the header is a value: \<^verbatim>\<open>throw Exception(message, code)\<close>
  is \<open>Exception code message\<close>; dereferencing a null pointer or an end iterator, which C++
  leaves undefined, is \<open>UndefinedBehaviour\<close>. \<open>LOGICAL_ERROR\<close> is the one error code the
  header declares; the other kinds are the ones section 7 of the specification lists
  (\<open>LOGICAL_ERROR\<close> is its \<^emph>\<open>LogicalError\<close>).
\<close>

datatype ErrorCodes =
    LOGICAL_ERROR
  | UnknownIdentifier
  | TypeMismatch
  | DuplicateInput
  | EmptyChain
  | TooManyTemporaryColumns
  | TooManyTemporaryNonConstColumns
  | ArrayJoinTypeMismatch

datatype error = Exception ErrorCodes string | UndefinedBehaviour

subsection \<open>\<^verbatim>\<open>ActionsDAG::Index\<close>\<close>

text \<open>
  The index is a \<^verbatim>\<open>std::list<Node *>\<close> and an \<^verbatim>\<open>unordered_map\<close> from names to list
  iterators. No defined path of the class erases a list element, so an iterator is the
  position of its element from the front, and \<^verbatim>\<open>list.end()\<close> is the length of the list.
  The keys are \<^verbatim>\<open>string_view\<close>s compared by content, hence strings.
\<close>

record Index =
  index_list :: "NodePtr list"
  index_map :: "string \<rightharpoonup> nat"

definition Index_empty :: Index where
  "Index_empty = \<lparr>index_list = [], index_map = Map.empty\<rparr>"

definition Index_size :: "Index \<Rightarrow> nat" where
  "Index_size idx = length (index_list idx)"

definition Index_contains :: "Index \<Rightarrow> string \<Rightarrow> bool" where
  "Index_contains idx key = (index_map idx key \<noteq> None)"

definition Index_end :: "Index \<Rightarrow> nat" where
  "Index_end idx = length (index_list idx)"

definition Index_find :: "Index \<Rightarrow> string \<Rightarrow> nat" where
  "Index_find idx key =
     (case index_map idx key of
        None \<Rightarrow> Index_end idx
      | Some it \<Rightarrow> it)"

text \<open>
  \<^verbatim>\<open>map[node->result_name] = list.emplace(list.end(), node)\<close>: the new element is
  last, and its iterator is the old length.
\<close>

definition Index_insert :: "Nodes \<Rightarrow> Index \<Rightarrow> NodePtr \<Rightarrow> Index" where
  "Index_insert ns idx node =
     \<lparr>index_list = index_list idx @ [node],
      index_map = (index_map idx)(result_name (ns ! node) \<mapsto> length (index_list idx))\<rparr>"

text \<open>
  \<^verbatim>\<open>map.extract\<close> takes the entry out of the map; the handle's key is rewritten, the
  list element it points to is overwritten with the new node, and the handle goes back in.
\<close>

definition Index_replace :: "Nodes \<Rightarrow> Index \<Rightarrow> NodePtr \<Rightarrow> Index" where
  "Index_replace ns idx node =
     (case index_map idx (result_name (ns ! node)) of
        Some it \<Rightarrow>
          (let extracted = (index_map idx)(result_name (ns ! node) := None)
           in \<lparr>index_list = (index_list idx)[it := node],
               index_map = extracted(result_name (ns ! node) \<mapsto> it)\<rparr>)
      | None \<Rightarrow> Index_insert ns idx node)"

text \<open>
  \<^verbatim>\<open>remove\<close> as written: it returns at once when the name is found
  (\<^verbatim>\<open>if (it != map.end()) return;\<close>), and otherwise goes on to read \<^verbatim>\<open>it->second\<close>
  of the end iterator.
\<close>

definition Index_remove :: "Nodes \<Rightarrow> Index \<Rightarrow> NodePtr \<Rightarrow> error + Index" where
  "Index_remove ns idx node =
     (case index_map idx (result_name (ns ! node)) of
        Some it \<Rightarrow> Inr idx
      | None \<Rightarrow> Inl UndefinedBehaviour)"

definition Index_swap :: "Index \<Rightarrow> Index \<Rightarrow> Index \<times> Index" where
  "Index_swap idx other = (other, idx)"

subsection \<open>\<^verbatim>\<open>ActionsDAG\<close>\<close>

type_synonym Names = "string list"
type_synonym NameSet = "string set"
type_synonym NamesAndTypesList = "(string \<times> DataTypePtr) list"
type_synonym NamesWithAliases = "(string \<times> string) list"

text \<open>
  \<^verbatim>\<open>ColumnWithTypeAndName\<close> (a column of a block) has the members \<^verbatim>\<open>column\<close>,
  \<^verbatim>\<open>type\<close> and \<^verbatim>\<open>name\<close>; they carry a prefix here, \<^verbatim>\<open>Node\<close> having members of
  the same names. A block is the list of its columns.
\<close>

record ColumnWithTypeAndName =
  col_column :: ColumnPtr
  col_type :: DataTypePtr
  col_name :: string

type_synonym ColumnsWithTypeAndName = "ColumnWithTypeAndName list"
type_synonym Block = "ColumnWithTypeAndName list"

record ActionsSettings =
  max_temporary_columns :: nat
  max_temporary_non_const_columns :: nat
  min_count_to_compile_expression :: nat
  compile_expressions :: bool
  project_input :: bool
  projected_output :: bool

definition ActionsSettings_default :: ActionsSettings where
  "ActionsSettings_default =
     \<lparr>max_temporary_columns = 0,
      max_temporary_non_const_columns = 0,
      min_count_to_compile_expression = 0,
      compile_expressions = False,
      project_input = False,
      projected_output = False\<rparr>"

record ActionsDAG =
  nodes :: Nodes
  index :: Index
  settings :: ActionsSettings

text \<open>
  An \<^verbatim>\<open>ActionsDAGPtr\<close> is a \<^verbatim>\<open>shared_ptr\<close>: \<open>None\<close> when null, and otherwise the
  DAG it points to. Each pointer below is the only one to its DAG that is looked at.
\<close>

type_synonym ActionsDAGPtr = "ActionsDAG option"

definition ActionsDAG_default :: ActionsDAG where
  "ActionsDAG_default =
     \<lparr>nodes = [], index = Index_empty, settings = ActionsSettings_default\<rparr>"

definition getNodes :: "ActionsDAG \<Rightarrow> Nodes" where
  "getNodes dag = nodes dag"

definition getIndex :: "ActionsDAG \<Rightarrow> Index" where
  "getIndex dag = index dag"

definition getSettings :: "ActionsDAG \<Rightarrow> ActionsSettings" where
  "getSettings dag = settings dag"

definition projectInput :: "ActionsDAG \<Rightarrow> ActionsDAG" where
  "projectInput dag = dag\<lparr>settings := (settings dag)\<lparr>project_input := True\<rparr>\<rparr>"

definition cloneEmpty :: "ActionsDAG \<Rightarrow> ActionsDAG" where
  "cloneEmpty dag = ActionsDAG_default\<lparr>settings := settings dag\<rparr>"

text \<open>
  Modelled from the spec: the bodies of \<^verbatim>\<open>addInput\<close>, of the constructor
  \<^verbatim>\<open>ActionsDAG(const NamesAndTypesList &)\<close> and of \<^verbatim>\<open>addAlias\<close> are not in the
  header. Section 4.1 of the specification says of them:
  \<^item> \<^verbatim>\<open>addInput(name, type)\<close> inserts an INPUT and fails with \<^emph>\<open>DuplicateInput\<close> if the
    name is already present in the Index when the DAG is being built as an input-typed
    source; an INPUT has no children and no column;
  \<^item> the input column schema is presented as a typed name list, so the constructor adds
    one input for each pair of the list, in order;
  \<^item> \<^verbatim>\<open>addAlias(source_name, alias, can_replace)\<close> looks \<^verbatim>\<open>source_name\<close> up in the
    Index (\<^emph>\<open>UnknownIdentifier\<close> if missing), creates an ALIAS whose child is that node and
    whose type is the child's, and inserts it into the Index: if \<^verbatim>\<open>can_replace\<close> is true
    and \<^verbatim>\<open>alias\<close> already exists the Index entry is replaced, otherwise the node is
    appended; \<^verbatim>\<open>allow_constant_folding\<close> is preserved through aliases.
  Every builder returns the reference to the node it inserted, and a build-time error
  leaves the DAG as it was. The two Index operations used are the header's own.
\<close>

definition addInput :: "ActionsDAG \<Rightarrow> string \<Rightarrow> DataTypePtr \<Rightarrow> error + (NodePtr \<times> ActionsDAG)" where
  "addInput dag name ty =
     (if Index_contains (index dag) name
      then Inl (Exception DuplicateInput (''Column already exists: '' @ name))
      else
        (let node = \<lparr>children = [], type = INPUT, result_name = name, result_type = ty,
                       function_builder = None, function_base = None, function_exec = None,
                       is_function_compiled = False, column = None,
                       allow_constant_folding = True\<rparr>;
             res = length (nodes dag);
             ns = nodes dag @ [node]
         in Inr (res, dag\<lparr>nodes := ns, index := Index_insert ns (index dag) res\<rparr>)))"

fun addInputs :: "ActionsDAG \<Rightarrow> NamesAndTypesList \<Rightarrow> error + ActionsDAG" where
  "addInputs dag [] = Inr dag"
| "addInputs dag (input # inputs) =
     (case addInput dag (fst input) (snd input) of
        Inl e \<Rightarrow> Inl e
      | Inr (res, dag') \<Rightarrow> addInputs dag' inputs)"

definition ActionsDAG_of_inputs :: "NamesAndTypesList \<Rightarrow> error + ActionsDAG" where
  "ActionsDAG_of_inputs inputs = addInputs ActionsDAG_default inputs"

definition addAlias :: "ActionsDAG \<Rightarrow> string \<Rightarrow> string \<Rightarrow> bool \<Rightarrow> error + (NodePtr \<times> ActionsDAG)" where
  "addAlias dag name alias can_replace =
     (if \<not> Index_contains (index dag) name
      then Inl (Exception UnknownIdentifier (''Unknown identifier: '' @ name))
      else
        (let child = index_list (index dag) ! Index_find (index dag) name;
             node = \<lparr>children = [child], type = ALIAS, result_name = alias,
                       result_type = result_type (nodes dag ! child),
                       function_builder = None, function_base = None, function_exec = None,
                       is_function_compiled = False, column = column (nodes dag ! child),
                       allow_constant_folding = allow_constant_folding (nodes dag ! child)\<rparr>;
             res = length (nodes dag);
             ns = nodes dag @ [node]
         in Inr (res,
              dag\<lparr>nodes := ns,
                  index := (if can_replace \<and> Index_contains (index dag) alias
                            then Index_replace ns (index dag) res
                            else Index_insert ns (index dag) res)\<rparr>)))"

subsection \<open>\<^verbatim>\<open>ExpressionActions\<close>\<close>

text \<open>
  \<^verbatim>\<open>struct Argument\<close>, \<^verbatim>\<open>struct Action\<close> and the data members of the class. An
  action points to its node in the arena of the DAG of the plan.
\<close>

record Argument =
  pos :: nat
  needed_later :: bool

type_synonym Arguments = "Argument list"

record Action =
  node :: NodePtr
  arguments :: Arguments
  result_position :: nat

type_synonym Actions = "Action list"
type_synonym ColumnNumbers = "nat list"

record ExpressionActions =
  actions_dag :: ActionsDAGPtr
  actions :: Actions
  num_columns :: nat
  required_columns :: NamesAndTypesList
  result_positions :: ColumnNumbers
  sample_block :: Block

definition getActions :: "ExpressionActions \<Rightarrow> Actions" where
  "getActions ea = actions ea"

definition getRequiredColumnsWithTypes :: "ExpressionActions \<Rightarrow> NamesAndTypesList" where
  "getRequiredColumnsWithTypes ea = required_columns ea"


text \<open>
  Modelled from the spec: the bodies of \<^verbatim>\<open>execute\<close> and \<^verbatim>\<open>checkLimits\<close> and the
  construction of the sample block are not in the header. What follows is section 4.3 of
  the specification, sentence by sentence.

  The working array (\<^verbatim>\<open>ExecutionContext::columns\<close> in the header's comment on
  \<^verbatim>\<open>Argument::pos\<close>) has \<^verbatim>\<open>num_columns\<close> slots; a slot is free (\<open>None\<close>) or holds a
  column, and the live columns are the slots that hold one. A column is constant or full
  (glossary), and its rows are its values one by one.
\<close>

fun isColumnConst :: "IColumn \<Rightarrow> bool" where
  "isColumnConst (ColumnConst v n) = True"
| "isColumnConst (ColumnFull vs) = False"

fun column_rows :: "IColumn \<Rightarrow> Field list" where
  "column_rows (ColumnConst v n) = replicate n v"
| "column_rows (ColumnFull vs) = vs"

record ExecutionContext =
  columns :: "ColumnWithTypeAndName option list"
  num_rows :: nat

definition live_columns :: "ColumnWithTypeAndName option list \<Rightarrow> nat" where
  "live_columns cols = length (filter (\<lambda>slot. slot \<noteq> None) cols)"

definition non_const_columns :: "ColumnWithTypeAndName option list \<Rightarrow> nat" where
  "non_const_columns cols =
     length (filter (\<lambda>slot.
       case slot of
         None \<Rightarrow> False
       | Some c \<Rightarrow> (case col_column c of None \<Rightarrow> False | Some d \<Rightarrow> \<not> isColumnConst d)) cols)"

text \<open>
  Modelled from the spec: the body of \<^verbatim>\<open>checkLimits\<close> is not in the header.
  \<^verbatim>\<open>checkLimits(current_columns)\<close> gives \<^emph>\<open>TooManyTemporaryColumns\<close> and
  \<^emph>\<open>TooManyTemporaryNonConstColumns\<close> when the resource limit is exceeded. Both limits
  are 0 by default in \<^verbatim>\<open>ActionsSettings\<close>, which is no limit.
\<close>

definition checkLimits :: "ExpressionActions \<Rightarrow> ColumnWithTypeAndName option list \<Rightarrow> error + unit" where
  "checkLimits ea cols =
     (case ExpressionActions.actions_dag ea of
        None \<Rightarrow> Inl UndefinedBehaviour
      | Some dag \<Rightarrow>
          (if max_temporary_columns (getSettings dag) \<noteq> 0
              \<and> max_temporary_columns (getSettings dag) < live_columns cols
           then Inl (Exception TooManyTemporaryColumns ''Too many temporary columns'')
           else if max_temporary_non_const_columns (getSettings dag) \<noteq> 0
              \<and> max_temporary_non_const_columns (getSettings dag) < non_const_columns cols
           then Inl (Exception TooManyTemporaryNonConstColumns
                  ''Too many temporary non-const columns'')
           else Inr ()))"

text \<open>
  Modelled from the spec: two steps of \<^verbatim>\<open>execute\<close>, whose body is not in the header.
  Reading the argument slots of an action, and freeing after the action the slots of the
  arguments that are not \<^verbatim>\<open>needed_later\<close>. A position beyond the array is undefined in
  C++; a free slot where an argument is expected is a broken invariant. Both functions
  serve the run on columns and the run on names and types.
\<close>

fun getArguments :: "'a option list \<Rightarrow> Arguments \<Rightarrow> error + 'a list" where
  "getArguments cols [] = Inr []"
| "getArguments cols (argument # rest) =
     (if length cols \<le> pos argument then Inl UndefinedBehaviour
      else (case cols ! pos argument of
              None \<Rightarrow> Inl (Exception LOGICAL_ERROR ''Argument column is not available'')
            | Some c \<Rightarrow>
                (case getArguments cols rest of
                   Inl e \<Rightarrow> Inl e
                 | Inr cs \<Rightarrow> Inr (c # cs))))"

fun freeArguments :: "'a option list \<Rightarrow> Arguments \<Rightarrow> 'a option list" where
  "freeArguments cols [] = cols"
| "freeArguments cols (argument # rest) =
     freeArguments (if needed_later argument then cols else cols[pos argument := None]) rest"

text \<open>
  Modelled from the spec: the array join of the glossary, for the ARRAY_JOIN actions of
  \<^verbatim>\<open>execute\<close>. For a row with an array of length k, k rows are emitted with the
  array unfolded and all other columns replicated. \<open>arrays\<close> reads the rows of the
  source as arrays and fails on a row that is none; \<open>replicateColumn\<close> repeats row i of
  a column as often as the i-th array is long.
\<close>

fun arrays :: "Field list \<Rightarrow> Field list list option" where
  "arrays [] = Some []"
| "arrays (Array vs # rest) = (case arrays rest of None \<Rightarrow> None | Some as \<Rightarrow> Some (vs # as))"
| "arrays (Int64 i # rest) = None"

definition replicateRows :: "nat list \<Rightarrow> Field list \<Rightarrow> Field list" where
  "replicateRows lens rows = concat (map (\<lambda>(l, v). replicate l v) (zip lens rows))"

fun replicateColumn :: "nat list \<Rightarrow> IColumn \<Rightarrow> IColumn" where
  "replicateColumn lens (ColumnConst v n) = ColumnConst v (sum_list lens)"
| "replicateColumn lens (ColumnFull vs) = ColumnFull (replicateRows lens vs)"

definition replicateSlot :: "nat list \<Rightarrow> ColumnWithTypeAndName \<Rightarrow> ColumnWithTypeAndName" where
  "replicateSlot lens c = c\<lparr>col_column := map_option (replicateColumn lens) (col_column c)\<rparr>"

text \<open>
  Modelled from the spec: the placeholder that \<^verbatim>\<open>execute\<close> produces for a FUNCTION
  in a dry run, a column of the right type; it holds one default value a row.
\<close>

fun defaultField :: "IDataType \<Rightarrow> Field" where
  "defaultField (DataTypeNumber name) = Int64 0"
| "defaultField (DataTypeArray nested) = Array []"

definition placeholderColumn :: "DataTypePtr \<Rightarrow> nat \<Rightarrow> IColumn" where
  "placeholderColumn ty n = ColumnFull (replicate n (defaultField ty))"

text \<open>
  Modelled from the spec: the actions of \<^verbatim>\<open>execute\<close>, whose body is not in the header.
  What an action computes, by the kind of its node: the column of the result and its
  type, the working array and the number of rows after it.
  \<^item> ALIAS: the column reference of the child slot, of the child's type (which is the
    type of an ALIAS node).
  \<^item> ARRAY_JOIN: the rows are replicated per the array lengths of the child column,
    \<^verbatim>\<open>num_rows\<close> is overwritten, and all live slots are replicated in lockstep; the
    result has the element type of the array (which is the type of an ARRAY_JOIN node);
    it fails with \<^emph>\<open>ArrayJoinTypeMismatch\<close> if the child is not array-typed.
  \<^item> FUNCTION: a placeholder column of the right type in a dry run, and else the
    executable invoked on the argument slots and the row count; the result has the
    return type, which is the type of the node. The executables are the function
    catalog, the parameter \<open>executable\<close>, looked up by the handle of the node.
  The plan records actions for these three kinds only.
\<close>

definition computeAction ::
  "(nat \<Rightarrow> ColumnsWithTypeAndName \<Rightarrow> nat \<Rightarrow> IColumn) \<Rightarrow> Node \<Rightarrow> ColumnsWithTypeAndName
     \<Rightarrow> ExecutionContext \<Rightarrow> bool
     \<Rightarrow> error + (ColumnPtr \<times> DataTypePtr \<times> ColumnWithTypeAndName option list \<times> nat)" where
  "computeAction executable n args ctx dry_run =
     (case type n of
        ALIAS \<Rightarrow>
          (case args of
             [arg] \<Rightarrow> Inr (col_column arg, col_type arg, columns ctx, num_rows ctx)
           | _ \<Rightarrow> Inl (Exception LOGICAL_ERROR ''ALIAS takes one argument''))
      | ARRAY_JOIN \<Rightarrow>
          (case args of
             [arg] \<Rightarrow>
               (case col_type arg of
                  DataTypeArray nested \<Rightarrow>
                    (case col_column arg of
                       None \<Rightarrow> Inl UndefinedBehaviour
                     | Some c \<Rightarrow>
                         (case arrays (column_rows c) of
                            None \<Rightarrow>
                              Inl (Exception ArrayJoinTypeMismatch
                                     ''ARRAY JOIN of not array'')
                          | Some as \<Rightarrow>
                              Inr (Some (ColumnFull (concat as)), nested,
                                   map (map_option (replicateSlot (map length as))) (columns ctx),
                                   sum_list (map length as))))
                | DataTypeNumber name \<Rightarrow>
                    Inl (Exception ArrayJoinTypeMismatch ''ARRAY JOIN of not array''))
           | _ \<Rightarrow> Inl (Exception LOGICAL_ERROR ''ARRAY JOIN takes one argument''))
      | FUNCTION \<Rightarrow>
          (if dry_run
           then Inr (Some (placeholderColumn (result_type n) (num_rows ctx)), result_type n,
                     columns ctx, num_rows ctx)
           else (case function_exec n of
                   None \<Rightarrow> Inl UndefinedBehaviour
                 | Some f \<Rightarrow>
                     Inr (Some (executable f args (num_rows ctx)), result_type n,
                          columns ctx, num_rows ctx)))
      | INPUT \<Rightarrow> Inl (Exception LOGICAL_ERROR ''No action for INPUT'')
      | COLUMN \<Rightarrow> Inl (Exception LOGICAL_ERROR ''No action for COLUMN''))"

text \<open>
  Modelled from the spec: one action of \<^verbatim>\<open>execute\<close>. The result goes to
  \<^verbatim>\<open>result_position\<close> under the name of the node and with its type, and then the
  slots whose children are not \<^verbatim>\<open>needed_later\<close> are freed.
\<close>

definition executeAction ::
  "(nat \<Rightarrow> ColumnsWithTypeAndName \<Rightarrow> nat \<Rightarrow> IColumn) \<Rightarrow> ExpressionActions \<Rightarrow> Action
     \<Rightarrow> ExecutionContext \<Rightarrow> bool \<Rightarrow> error + ExecutionContext" where
  "executeAction executable ea action ctx dry_run =
     (case ExpressionActions.actions_dag ea of
        None \<Rightarrow> Inl UndefinedBehaviour
      | Some dag \<Rightarrow>
          (if length (getNodes dag) \<le> node action
              \<or> length (columns ctx) \<le> result_position action
           then Inl UndefinedBehaviour
           else (case getArguments (columns ctx) (arguments action) of
                   Inl e \<Rightarrow> Inl e
                 | Inr args \<Rightarrow>
                     (case computeAction executable (getNodes dag ! node action) args ctx dry_run of
                        Inl e \<Rightarrow> Inl e
                      | Inr (res, ty, cols, rows) \<Rightarrow>
                          Inr \<lparr>columns =
                                 freeArguments
                                   (cols[result_position action :=
                                      Some \<lparr>col_column = res,
                                            col_type = ty,
                                            col_name = result_name (getNodes dag ! node action)\<rparr>])
                                   (arguments action),
                               num_rows = rows\<rparr>))))"

text \<open>
  Modelled from the spec: the loop of \<^verbatim>\<open>execute\<close>. For each action in order: the
  action, then \<^verbatim>\<open>checkLimits\<close> on the working array.
\<close>

fun executeActions ::
  "(nat \<Rightarrow> ColumnsWithTypeAndName \<Rightarrow> nat \<Rightarrow> IColumn) \<Rightarrow> ExpressionActions \<Rightarrow> Actions
     \<Rightarrow> ExecutionContext \<Rightarrow> bool \<Rightarrow> error + ExecutionContext" where
  "executeActions executable ea [] ctx dry_run = Inr ctx"
| "executeActions executable ea (action # rest) ctx dry_run =
     (case executeAction executable ea action ctx dry_run of
        Inl e \<Rightarrow> Inl e
      | Inr ctx' \<Rightarrow>
          (case checkLimits ea (columns ctx') of
             Inl e \<Rightarrow> Inl e
           | Inr u \<Rightarrow> executeActions executable ea rest ctx' dry_run))"

text \<open>
  Modelled from the spec: the start of \<^verbatim>\<open>execute\<close>, whose body is not in the header.
  The block must carry every required column by name and
  type (a column is looked up by its name, the first of that name counting); with
  \<^verbatim>\<open>project_input\<close> the columns that no input refers to are dropped; the working array
  is allocated and the inputs are placed. The header keeps no slot for an input, only the
  list \<^verbatim>\<open>required_columns\<close>: the inputs take the first slots in the order of that list.
\<close>

definition findColumn :: "Block \<Rightarrow> string \<Rightarrow> ColumnWithTypeAndName option" where
  "findColumn block name = find (\<lambda>c. col_name c = name) block"

fun checkRequiredColumns :: "NamesAndTypesList \<Rightarrow> Block \<Rightarrow> error + unit" where
  "checkRequiredColumns [] block = Inr ()"
| "checkRequiredColumns (required # rest) block =
     (case findColumn block (fst required) of
        None \<Rightarrow> Inl (Exception TypeMismatch (''Not found column '' @ fst required))
      | Some c \<Rightarrow>
          (if col_type c \<noteq> snd required
           then Inl (Exception TypeMismatch (''Unexpected type of column '' @ fst required))
           else checkRequiredColumns rest block))"

fun placeInputs ::
  "Block \<Rightarrow> NamesAndTypesList \<Rightarrow> nat \<Rightarrow> ColumnWithTypeAndName option list
     \<Rightarrow> error + ColumnWithTypeAndName option list" where
  "placeInputs block [] i cols = Inr cols"
| "placeInputs block (required # rest) i cols =
     (if length cols \<le> i then Inl UndefinedBehaviour
      else (case findColumn block (fst required) of
              None \<Rightarrow> Inl (Exception LOGICAL_ERROR (''Not found column '' @ fst required))
            | Some c \<Rightarrow> placeInputs block rest (Suc i) (cols[i := Some c])))"

definition initialContext ::
  "ExpressionActions \<Rightarrow> Block \<Rightarrow> nat \<Rightarrow> error + ExecutionContext" where
  "initialContext ea block rows =
     (case ExpressionActions.actions_dag ea of
        None \<Rightarrow> Inl UndefinedBehaviour
      | Some dag \<Rightarrow>
          (case checkRequiredColumns (required_columns ea) block of
             Inl e \<Rightarrow> Inl e
           | Inr u \<Rightarrow>
               (case placeInputs
                       (if project_input (getSettings dag)
                        then filter (\<lambda>c. col_name c \<in> set (map fst (required_columns ea))) block
                        else block)
                       (required_columns ea) 0 (replicate (num_columns ea) None) of
                  Inl e \<Rightarrow> Inl e
                | Inr cols \<Rightarrow> Inr \<lparr>columns = cols, num_rows = rows\<rparr>)))"

text \<open>
  Modelled from the spec: the end of \<^verbatim>\<open>execute\<close>. The block is rebuilt from
  \<^verbatim>\<open>result_positions\<close>, in that order.
\<close>

fun rebuildBlock :: "'a option list \<Rightarrow> ColumnNumbers \<Rightarrow> error + 'a list" where
  "rebuildBlock cols [] = Inr []"
| "rebuildBlock cols (p # ps) =
     (if length cols \<le> p then Inl UndefinedBehaviour
      else (case cols ! p of
              None \<Rightarrow> Inl (Exception LOGICAL_ERROR ''Result column is not available'')
            | Some c \<Rightarrow>
                (case rebuildBlock cols ps of
                   Inl e \<Rightarrow> Inl e
                 | Inr cs \<Rightarrow> Inr (c # cs))))"

text \<open>
  Modelled from the spec: what \<^verbatim>\<open>execute\<close> leaves of the incoming block. The inputs
  move to their slots. The columns that no input refers to are dropped if
  \<^verbatim>\<open>project_input\<close> is set, and stay in the block if it is not.
\<close>

definition remainingColumns :: "ExpressionActions \<Rightarrow> Block \<Rightarrow> Block" where
  "remainingColumns ea block =
     (case ExpressionActions.actions_dag ea of
        None \<Rightarrow> []
      | Some dag \<Rightarrow>
          (if project_input (getSettings dag) then []
           else filter (\<lambda>c. col_name c \<notin> set (map fst (required_columns ea))) block))"

text \<open>
  Modelled from the spec: \<^verbatim>\<open>execute(block, num_rows, dry_run)\<close>, whose body is not in
  the header, put together from the steps above: the result columns are added to what is
  left of the block. It returns the block and the number of rows that it leaves in its
  two reference arguments.
\<close>

definition execute ::
  "(nat \<Rightarrow> ColumnsWithTypeAndName \<Rightarrow> nat \<Rightarrow> IColumn) \<Rightarrow> ExpressionActions \<Rightarrow> Block \<Rightarrow> nat \<Rightarrow> bool
     \<Rightarrow> error + (Block \<times> nat)" where
  "execute executable ea block rows dry_run =
     (case initialContext ea block rows of
        Inl e \<Rightarrow> Inl e
      | Inr ctx \<Rightarrow>
          (case executeActions executable ea (actions ea) ctx dry_run of
             Inl e \<Rightarrow> Inl e
           | Inr ctx' \<Rightarrow>
               (case rebuildBlock (columns ctx') (result_positions ea) of
                  Inl e \<Rightarrow> Inl e
                | Inr block' \<Rightarrow> Inr (remainingColumns ea block @ block', num_rows ctx'))))"




text \<open>
  The schema of a block: the names and types of its columns, in order; and the names and
  types that the slots of a working array hold.
\<close>

definition schema :: "Block \<Rightarrow> (string \<times> DataTypePtr) list" where
  "schema block = map (\<lambda>c. (col_name c, col_type c)) block"

definition slotSchema ::
  "ColumnWithTypeAndName option list \<Rightarrow> (string \<times> DataTypePtr) option list" where
  "slotSchema cols = map (map_option (\<lambda>c. (col_name c, col_type c))) cols"

text \<open>
  Modelled from the spec: \<^verbatim>\<open>linearizeActions\<close> builds the sample block by executing
  the plan on an empty block to compute the output schema (names and types). An empty
  block holds no data, so this is the plan run on names and types alone: the required
  columns take the first slots, each action puts the name of its node and the type of
  its result at its \<^verbatim>\<open>result_position\<close> and frees the arguments not needed later, and
  the schema is read off \<^verbatim>\<open>result_positions\<close>. No data means no live column, so no
  limit applies.
\<close>

definition sampleCompute :: "Node \<Rightarrow> (string \<times> DataTypePtr) list \<Rightarrow> error + DataTypePtr" where
  "sampleCompute n args =
     (case type n of
        ALIAS \<Rightarrow>
          (case args of
             [arg] \<Rightarrow> Inr (snd arg)
           | _ \<Rightarrow> Inl (Exception LOGICAL_ERROR ''ALIAS takes one argument''))
      | ARRAY_JOIN \<Rightarrow>
          (case args of
             [arg] \<Rightarrow>
               (case snd arg of
                  DataTypeArray nested \<Rightarrow> Inr nested
                | DataTypeNumber name \<Rightarrow>
                    Inl (Exception ArrayJoinTypeMismatch ''ARRAY JOIN of not array''))
           | _ \<Rightarrow> Inl (Exception LOGICAL_ERROR ''ARRAY JOIN takes one argument''))
      | FUNCTION \<Rightarrow> Inr (result_type n)
      | INPUT \<Rightarrow> Inl (Exception LOGICAL_ERROR ''No action for INPUT'')
      | COLUMN \<Rightarrow> Inl (Exception LOGICAL_ERROR ''No action for COLUMN''))"

definition sampleAction ::
  "ExpressionActions \<Rightarrow> Action \<Rightarrow> (string \<times> DataTypePtr) option list
     \<Rightarrow> error + (string \<times> DataTypePtr) option list" where
  "sampleAction ea action cols =
     (case ExpressionActions.actions_dag ea of
        None \<Rightarrow> Inl UndefinedBehaviour
      | Some dag \<Rightarrow>
          (if length (getNodes dag) \<le> node action \<or> length cols \<le> result_position action
           then Inl UndefinedBehaviour
           else (case getArguments cols (arguments action) of
                   Inl e \<Rightarrow> Inl e
                 | Inr args \<Rightarrow>
                     (case sampleCompute (getNodes dag ! node action) args of
                        Inl e \<Rightarrow> Inl e
                      | Inr ty \<Rightarrow>
                          Inr (freeArguments
                                 (cols[result_position action :=
                                    Some (result_name (getNodes dag ! node action), ty)])
                                 (arguments action))))))"

fun sampleActions ::
  "ExpressionActions \<Rightarrow> Actions \<Rightarrow> (string \<times> DataTypePtr) option list
     \<Rightarrow> error + (string \<times> DataTypePtr) option list" where
  "sampleActions ea [] cols = Inr cols"
| "sampleActions ea (action # rest) cols =
     (case sampleAction ea action cols of
        Inl e \<Rightarrow> Inl e
      | Inr cols' \<Rightarrow> sampleActions ea rest cols')"

fun placeRequired ::
  "NamesAndTypesList \<Rightarrow> nat \<Rightarrow> (string \<times> DataTypePtr) option list
     \<Rightarrow> error + (string \<times> DataTypePtr) option list" where
  "placeRequired [] i cols = Inr cols"
| "placeRequired (required # rest) i cols =
     (if length cols \<le> i then Inl UndefinedBehaviour
      else placeRequired rest (Suc i) (cols[i := Some required]))"

definition sampleSchema :: "ExpressionActions \<Rightarrow> error + (string \<times> DataTypePtr) list" where
  "sampleSchema ea =
     (case placeRequired (required_columns ea) 0 (replicate (num_columns ea) None) of
        Inl e \<Rightarrow> Inl e
      | Inr cols \<Rightarrow>
          (case sampleActions ea (actions ea) cols of
             Inl e \<Rightarrow> Inl e
           | Inr cols' \<Rightarrow> rebuildBlock cols' (result_positions ea)))"




subsection \<open>\<^verbatim>\<open>ExpressionActionsChain\<close>\<close>

text \<open>
  \<^verbatim>\<open>struct Step\<close> and the three classes derived from it, as a record and its
  extensions. In \<^verbatim>\<open>ArrayJoinStep\<close> and \<^verbatim>\<open>JoinStep\<close> the members
  \<^verbatim>\<open>required_columns\<close> and \<^verbatim>\<open>result_columns\<close> carry the prefix of their class. The
  array join action, the join analyser and the join are opaque handles. A \<^verbatim>\<open>StepPtr\<close>
  owns an object of one of the three classes, which is the tag of \<open>StepPtr\<close>.
\<close>

record Step =
  additional_input :: NameSet
  required_output :: Names
  can_remove_required_output :: "bool list"

record ExpressionActionsStep = Step +
  actions_dag :: ActionsDAGPtr

record ArrayJoinStep = Step +
  array_join :: "nat option"
  array_join_required_columns :: NamesAndTypesList
  array_join_result_columns :: ColumnsWithTypeAndName

record JoinStep = Step +
  analyzed_join :: "nat option"
  join_ptr :: "nat option"
  join_required_columns :: NamesAndTypesList
  join_result_columns :: ColumnsWithTypeAndName

datatype StepPtr =
    IsExpressionActionsStep ExpressionActionsStep
  | IsArrayJoinStep ArrayJoinStep
  | IsJoinStep JoinStep

type_synonym Steps = "StepPtr list"

text \<open>
  The constructor \<^verbatim>\<open>ExpressionActionsStep(actions_dag_, required_output_ = Names())\<close>;
  the two other members of \<^verbatim>\<open>Step\<close> are default-initialised, hence empty.
\<close>

definition ExpressionActionsStep_new :: "ActionsDAGPtr \<Rightarrow> Names \<Rightarrow> ExpressionActionsStep" where
  "ExpressionActionsStep_new actions_dag0 required_output0 =
     \<lparr>additional_input = {}, required_output = required_output0,
      can_remove_required_output = [], actions_dag = actions_dag0\<rparr>"

text \<open>
  \<^verbatim>\<open>ExpressionActionsStep::finalize\<close>. The body of \<^verbatim>\<open>removeUnusedActions\<close> is not in
  the header, so it is the parameter \<open>removeUnusedActions\<close>, which may throw.
\<close>

definition finalize ::
  "(ActionsDAG \<Rightarrow> Names \<Rightarrow> error + ActionsDAG) \<Rightarrow> ExpressionActionsStep \<Rightarrow> Names
     \<Rightarrow> error + ExpressionActionsStep" where
  "finalize removeUnusedActions step required_output0 =
     (case actions_dag step of
        None \<Rightarrow> Inl UndefinedBehaviour
      | Some dag \<Rightarrow>
          (if \<not> projected_output (getSettings dag)
           then (case removeUnusedActions dag required_output0 of
                   Inl e \<Rightarrow> Inl e
                 | Inr dag' \<Rightarrow> Inr (step\<lparr>actions_dag := Some dag'\<rparr>))
           else Inr step))"

definition prependProjectInput :: "ExpressionActionsStep \<Rightarrow> error + ExpressionActionsStep" where
  "prependProjectInput step =
     (case actions_dag step of
        None \<Rightarrow> Inl UndefinedBehaviour
      | Some dag \<Rightarrow> Inr (step\<lparr>actions_dag := Some (projectInput dag)\<rparr>))"

text \<open>
  The chain keeps a reference to the context, which nothing here looks into, and the
  vector of steps. A member function returns its value together with the chain it leaves.
\<close>

datatype Context = GlobalContext

record ExpressionActionsChain =
  "context" :: Context
  steps :: Steps

definition ExpressionActionsChain_new :: "Context \<Rightarrow> ExpressionActionsChain" where
  "ExpressionActionsChain_new context0 = \<lparr>context = context0, steps = []\<rparr>"

definition clear :: "ExpressionActionsChain \<Rightarrow> ExpressionActionsChain" where
  "clear chain = chain\<lparr>steps := []\<rparr>"

text \<open>
  Modelled from the spec: \<^verbatim>\<open>typeid_cast\<close> is defined outside the header. The steps
  are a closed set of three variants, and the step's \<^verbatim>\<open>actions()\<close> are, in the header's
  words, only for \<^verbatim>\<open>ExpressionActionsStep\<close>: the cast to \<^verbatim>\<open>ExpressionActionsStep *\<close>
  yields the object when that is its class and the null pointer otherwise.
\<close>

fun typeid_cast_ExpressionActionsStep :: "StepPtr \<Rightarrow> ExpressionActionsStep option" where
  "typeid_cast_ExpressionActionsStep (IsExpressionActionsStep step) = Some step"
| "typeid_cast_ExpressionActionsStep (IsArrayJoinStep step) = None"
| "typeid_cast_ExpressionActionsStep (IsJoinStep step) = None"

definition getLastActions ::
  "ExpressionActionsChain \<Rightarrow> bool \<Rightarrow> error + (ActionsDAGPtr \<times> ExpressionActionsChain)" where
  "getLastActions chain allow_empty =
     (if steps chain = []
      then (if allow_empty
            then Inr (None, chain)
            else Inl (Exception LOGICAL_ERROR ''Empty ExpressionActionsChain''))
      else (case typeid_cast_ExpressionActionsStep (last (steps chain)) of
              None \<Rightarrow> Inl UndefinedBehaviour
            | Some step \<Rightarrow> Inr (actions_dag step, chain)))"

definition getLastStep :: "ExpressionActionsChain \<Rightarrow> error + (StepPtr \<times> ExpressionActionsChain)" where
  "getLastStep chain =
     (if steps chain = []
      then Inl (Exception LOGICAL_ERROR ''Empty ExpressionActionsChain'')
      else Inr (last (steps chain), chain))"

text \<open>
  \<^verbatim>\<open>lastStep\<close> builds the DAG of a new step with the constructor
  \<^verbatim>\<open>ActionsDAG(const NamesAndTypesList &)\<close>, whose body is not in the header: it is
  the parameter \<open>new_ActionsDAG\<close>, which may throw. An exception of the constructor leaves
  through \<^verbatim>\<open>lastStep\<close> before \<^verbatim>\<open>emplace_back\<close> is entered. The function returns what
  it returns or throws together with the chain it leaves in either case.
\<close>

definition lastStep ::
  "(NamesAndTypesList \<Rightarrow> error + ActionsDAG) \<Rightarrow> ExpressionActionsChain \<Rightarrow> NamesAndTypesList
     \<Rightarrow> (error + StepPtr) \<times> ExpressionActionsChain" where
  "lastStep new_ActionsDAG chain input_columns =
     (if steps chain = []
      then (case new_ActionsDAG input_columns of
              Inl e \<Rightarrow> (Inl e, chain)
            | Inr dag \<Rightarrow>
                (let chain' = chain\<lparr>steps := steps chain @
                       [IsExpressionActionsStep (ExpressionActionsStep_new (Some dag) [])]\<rparr>
                 in (Inr (last (steps chain')), chain')))
      else (Inr (last (steps chain)), chain))"

subsection \<open>A small DAG for the examples\<close>

text \<open>
  The input \<^verbatim>\<open>x\<close> of type \<^verbatim>\<open>Int32\<close> and its alias \<^verbatim>\<open>y\<close>, both in the index.
\<close>

definition example_x :: Node where
  "example_x =
     \<lparr>children = [], type = INPUT, result_name = ''x'', result_type = DataTypeNumber ''Int32'',
      function_builder = None, function_base = None, function_exec = None,
      is_function_compiled = False, column = None, allow_constant_folding = True\<rparr>"

definition example_y :: Node where
  "example_y =
     \<lparr>children = [0], type = ALIAS, result_name = ''y'', result_type = DataTypeNumber ''Int32'',
      function_builder = None, function_base = None, function_exec = None,
      is_function_compiled = False, column = None, allow_constant_folding = True\<rparr>"

definition example_dag :: ActionsDAG where
  "example_dag =
     \<lparr>nodes = [example_x, example_y],
      index = \<lparr>index_list = [0, 1], index_map = [''x'' \<mapsto> 0, ''y'' \<mapsto> 1]\<rparr>,
      settings = ActionsSettings_default\<rparr>"

text \<open>
  A plan over the input \<^verbatim>\<open>x\<close> and two aliases of it, \<^verbatim>\<open>y\<close> and \<^verbatim>\<open>z\<close>, all three in
  the index, with a given limit on the temporary columns: \<^verbatim>\<open>x\<close> takes slot 0, needed
  later by both aliases and by the result, and the aliases go to slots 1 and 2. The sample
  block holds the three names and types and no data. The block to run on has the column
  \<^verbatim>\<open>x\<close> with three rows; no function is called.
\<close>

definition example_z :: Node where
  "example_z =
     \<lparr>children = [0], type = ALIAS, result_name = ''z'', result_type = DataTypeNumber ''Int32'',
      function_builder = None, function_base = None, function_exec = None,
      is_function_compiled = False, column = None, allow_constant_folding = True\<rparr>"

definition example_plan_dag :: "nat \<Rightarrow> ActionsDAG" where
  "example_plan_dag limit =
     \<lparr>nodes = [example_x, example_y, example_z],
      index = \<lparr>index_list = [0, 1, 2],
               index_map = [''x'' \<mapsto> 0, ''y'' \<mapsto> 1, ''z'' \<mapsto> 2]\<rparr>,
      settings = ActionsSettings_default\<lparr>max_temporary_columns := limit\<rparr>\<rparr>"

definition example_alias_y :: Action where
  "example_alias_y =
     \<lparr>node = 1, arguments = [\<lparr>pos = 0, needed_later = True\<rparr>], result_position = 1\<rparr>"

definition example_alias_z :: Action where
  "example_alias_z =
     \<lparr>node = 2, arguments = [\<lparr>pos = 0, needed_later = True\<rparr>], result_position = 2\<rparr>"

definition example_plan :: "nat \<Rightarrow> ExpressionActions" where
  "example_plan limit =
     \<lparr>ExpressionActions.actions_dag = Some (example_plan_dag limit),
      actions = [example_alias_y, example_alias_z],
      num_columns = 3,
      required_columns = [(''x'', DataTypeNumber ''Int32'')],
      result_positions = [0, 1, 2],
      sample_block =
        [\<lparr>col_column = None, col_type = DataTypeNumber ''Int32'', col_name = ''x''\<rparr>,
         \<lparr>col_column = None, col_type = DataTypeNumber ''Int32'', col_name = ''y''\<rparr>,
         \<lparr>col_column = None, col_type = DataTypeNumber ''Int32'', col_name = ''z''\<rparr>]\<rparr>"


definition example_block :: Block where
  "example_block =
     [\<lparr>col_column = Some (ColumnFull [Int64 1, Int64 2, Int64 3]),
       col_type = DataTypeNumber ''Int32'', col_name = ''x''\<rparr>]"

definition no_functions :: "nat \<Rightarrow> ColumnsWithTypeAndName \<Rightarrow> nat \<Rightarrow> IColumn" where
  "no_functions f args rows = ColumnFull []"







definition example_projected_dag :: ActionsDAG where
  "example_projected_dag =
     example_dag\<lparr>settings := ActionsSettings_default\<lparr>projected_output := True\<rparr>\<rparr>"

definition example_chain :: ExpressionActionsChain where
  "example_chain =
     \<lparr>context = GlobalContext,
      steps = [IsExpressionActionsStep (ExpressionActionsStep_new (Some example_dag) [])]\<rparr>"

section \<open>The index\<close>

lemma Index_insert_list:
  "index_list (Index_insert ns idx n) = index_list idx @ [n]"
  by (simp add: Index_insert_def)

lemma Index_insert_map:
  "index_map (Index_insert ns idx n) =
     (index_map idx)(result_name (ns ! n) \<mapsto> length (index_list idx))"
  by (simp add: Index_insert_def)

lemma foldl_Index_insert_list:
  "index_list (foldl (Index_insert ns) idx ps) = index_list idx @ ps"
  by (induction ps arbitrary: idx) (simp_all add: Index_insert_list)

text \<open>
  After any run of insertions, a name carried by one of the inserted nodes is mapped to
  a valid iterator, and the list holds at that place the last inserted node of that name.
\<close>

lemma foldl_Index_insert_map:
  assumes "key \<in> (\<lambda>p. result_name (ns ! p)) ` set ps"
  shows "\<exists>it. index_map (foldl (Index_insert ns) idx ps) key = Some it
           \<and> it < length (index_list idx @ ps)
           \<and> (index_list idx @ ps) ! it = last (filter (\<lambda>p. result_name (ns ! p) = key) ps)"
  using assms
proof (induction ps rule: rev_induct)
  case Nil
  then show ?case by simp
next
  case (snoc p ps)
  show ?case
  proof (cases "result_name (ns ! p) = key")
    case True
    then show ?thesis
      by (simp add: Index_insert_map foldl_Index_insert_list nth_append)
  next
    case False
    with snoc.prems have "key \<in> (\<lambda>p. result_name (ns ! p)) ` set ps" by auto
    from snoc.IH [OF this] obtain it where
      it: "index_map (foldl (Index_insert ns) idx ps) key = Some it"
          "it < length (index_list idx @ ps)"
          "(index_list idx @ ps) ! it = last (filter (\<lambda>p. result_name (ns ! p) = key) ps)"
      by blast
    from it(2) have "(index_list idx @ ps @ [p]) ! it = (index_list idx @ ps) ! it"
      by (metis append.assoc nth_append)
    with it False show ?thesis
      by (simp add: Index_insert_map)
  qed
qed

text \<open>
  Claim C7. Whatever the index and whatever nodes of the arena are inserted one after the
  other, the list grows by exactly these nodes in order (so nodes of the same name all
  stay in it), and every name among them is then found by \<^verbatim>\<open>find\<close> at a valid place
  of the list, which holds the node of that name that was inserted last.
\<close>

theorem Index_insert_points_to_latest:
  assumes "\<forall>p \<in> set ps. p < length ns"
    and "key \<in> (\<lambda>p. result_name (ns ! p)) ` set ps"
  shows "index_list (foldl (Index_insert ns) idx ps) = index_list idx @ ps
       \<and> Index_contains (foldl (Index_insert ns) idx ps) key
       \<and> Index_find (foldl (Index_insert ns) idx ps) key < Index_end (foldl (Index_insert ns) idx ps)
       \<and> index_list (foldl (Index_insert ns) idx ps) ! Index_find (foldl (Index_insert ns) idx ps) key
           = last (filter (\<lambda>p. result_name (ns ! p) = key) ps)"
proof -
  from foldl_Index_insert_map [OF assms(2), of idx] obtain it where
    it: "index_map (foldl (Index_insert ns) idx ps) key = Some it"
        "it < length (index_list idx @ ps)"
        "(index_list idx @ ps) ! it = last (filter (\<lambda>p. result_name (ns ! p) = key) ps)"
    by blast
  then show ?thesis
    by (simp add: foldl_Index_insert_list Index_contains_def Index_find_def Index_end_def)
qed

text \<open>
  Two nodes named \<^verbatim>\<open>y\<close> inserted into the empty index: both are in the list, and the
  name resolves to the second.
\<close>

theorem Index_insert_points_to_latest_witness:
  "1 < length [example_x, example_y, example_y]
   \<and> 2 < length [example_x, example_y, example_y]
   \<and> ''y'' \<in> (\<lambda>p. result_name ([example_x, example_y, example_y] ! p)) ` set [1, 2]
   \<and> index_list (foldl (Index_insert [example_x, example_y, example_y]) Index_empty [1, 2]) = [1, 2]
   \<and> Index_contains (foldl (Index_insert [example_x, example_y, example_y]) Index_empty [1, 2]) ''y''
   \<and> index_list (foldl (Index_insert [example_x, example_y, example_y]) Index_empty [1, 2]) !
      Index_find (foldl (Index_insert [example_x, example_y, example_y]) Index_empty [1, 2]) ''y'' = 2"
proof -
  have h1: "\<forall>p \<in> set [1, 2]. p < length [example_x, example_y, example_y]" by simp
  have h2: "''y'' \<in> (\<lambda>p. result_name ([example_x, example_y, example_y] ! p)) ` set [1, 2]"
    by (simp add: example_y_def)
  from Index_insert_points_to_latest [OF h1 h2, of Index_empty] h1 h2
  show ?thesis
    by (simp add: example_x_def example_y_def Index_empty_def Index_insert_def Index_find_def
        Index_contains_def Index_end_def)
qed

text \<open>
  Claim C1. The claim asks that \<^verbatim>\<open>remove\<close> of a node whose name the index maps deletes
  the entry from the map and from the list. As written, \<^verbatim>\<open>remove\<close> returns before it
  erases anything exactly when the name is mapped: on the index holding the one input
  \<^verbatim>\<open>x\<close>, removing that node gives the same index back, which still contains \<^verbatim>\<open>x\<close> and
  still has one element.
\<close>

theorem Index_remove_keeps_present_name:
  "Index_remove [example_x] \<lparr>index_list = [0], index_map = [''x'' \<mapsto> 0]\<rparr> 0
     = Inr \<lparr>index_list = [0], index_map = [''x'' \<mapsto> 0]\<rparr>
   \<and> Index_contains \<lparr>index_list = [0], index_map = [''x'' \<mapsto> 0]\<rparr> ''x''
   \<and> Index_size \<lparr>index_list = [0], index_map = [''x'' \<mapsto> 0]\<rparr> = 1"
  by (simp add: Index_remove_def Index_contains_def Index_size_def example_x_def)

text \<open>The same on every index: a mapped name makes \<^verbatim>\<open>remove\<close> a no-op.\<close>

lemma Index_remove_present:
  "Index_contains idx (result_name (ns ! n)) \<Longrightarrow> Index_remove ns idx n = Inr idx"
  by (auto simp: Index_contains_def Index_remove_def)

lemma Index_replace_present:
  assumes "index_map idx (result_name (ns ! n)) = Some it"
  shows "index_list (Index_replace ns idx n) = (index_list idx)[it := n]"
    and "index_map (Index_replace ns idx n) = index_map idx"
  using assms by (auto simp: Index_replace_def)

section \<open>Aliases\<close>

text \<open>
  Claim C6. Let \<^verbatim>\<open>addAlias(name, alias, can_replace)\<close> succeed on a DAG whose index
  holds, if it holds \<^verbatim>\<open>alias\<close> at all, a valid iterator for it. The new node is an ALIAS
  named \<^verbatim>\<open>alias\<close> at the end of the arena. If \<^verbatim>\<open>can_replace\<close> is set and the index
  contained \<^verbatim>\<open>alias\<close>, the list element of the old entry now is the new node and the list
  is otherwise as before; in every other case the new node is appended to the list. Either
  way a lookup of \<^verbatim>\<open>alias\<close> finds the new node.
\<close>

theorem addAlias_replaces_or_appends:
  assumes "addAlias dag name alias can_replace = Inr (res, dag')"
    and "Index_contains (index dag) alias \<longrightarrow> Index_find (index dag) alias < Index_size (index dag)"
  shows "res = length (nodes dag)
       \<and> length (nodes dag') = Suc (length (nodes dag))
       \<and> type (nodes dag' ! res) = ALIAS
       \<and> result_name (nodes dag' ! res) = alias
       \<and> (if can_replace \<and> Index_contains (index dag) alias
          then index_list (index dag') = (index_list (index dag))[Index_find (index dag) alias := res]
          else index_list (index dag') = index_list (index dag) @ [res])
       \<and> Index_contains (index dag') alias
       \<and> Index_find (index dag') alias < Index_size (index dag')
       \<and> index_list (index dag') ! Index_find (index dag') alias = res"
proof -
  let ?child = "index_list (index dag) ! Index_find (index dag) name"
  let ?node = "\<lparr>children = [?child], type = ALIAS, result_name = alias,
                 result_type = result_type (nodes dag ! ?child),
                 function_builder = None, function_base = None, function_exec = None,
                 is_function_compiled = False, column = column (nodes dag ! ?child),
                 allow_constant_folding = allow_constant_folding (nodes dag ! ?child)\<rparr>"
  let ?ns = "nodes dag @ [?node]"
  from assms(1) have res: "res = length (nodes dag)"
    and dag': "dag' = dag\<lparr>nodes := ?ns,
                  index := (if can_replace \<and> Index_contains (index dag) alias
                            then Index_replace ?ns (index dag) res
                            else Index_insert ?ns (index dag) res)\<rparr>"
    by (auto simp: addAlias_def Let_def split: if_splits)
  have nm: "result_name (?ns ! res) = alias" by (simp add: res)
  have len: "length (nodes dag') = Suc (length (nodes dag))"
    and ty: "type (nodes dag' ! res) = ALIAS"
    and nm': "result_name (nodes dag' ! res) = alias"
    by (simp_all add: dag' res)
  show ?thesis
  proof (cases "can_replace \<and> Index_contains (index dag) alias")
    case True
    then obtain it where it: "index_map (index dag) alias = Some it"
      by (auto simp: Index_contains_def)
    with assms(2) True have lt: "it < length (index_list (index dag))"
      by (simp add: Index_find_def Index_size_def)
    from True have idx': "index dag' = Index_replace ?ns (index dag) res"
      by (simp add: dag')
    from it nm have "index_map (index dag) (result_name (?ns ! res)) = Some it" by simp
    note rep = Index_replace_present [OF this]
    have l: "index_list (index dag') = (index_list (index dag))[it := res]"
      and m: "index_map (index dag') = index_map (index dag)"
      using rep by (simp_all add: idx')
    from True it lt l m res len ty nm' show ?thesis
      by (simp add: Index_contains_def Index_find_def Index_size_def)
  next
    case False
    then have idx': "index dag' = Index_insert ?ns (index dag) res"
      by (auto simp: dag')
    have l: "index_list (index dag') = index_list (index dag) @ [res]"
      by (simp add: idx' Index_insert_list)
    have m: "index_map (index dag') =
               (index_map (index dag))(alias \<mapsto> length (index_list (index dag)))"
      using nm by (simp add: idx' Index_insert_map)
    from False l m res len ty nm' show ?thesis
      by (auto simp: Index_contains_def Index_find_def Index_size_def)
  qed
qed

text \<open>
  On the example DAG, a second alias \<^verbatim>\<open>y\<close> of \<^verbatim>\<open>x\<close> with \<^verbatim>\<open>can_replace\<close> takes over
  the place of the first in the list.
\<close>

theorem addAlias_replaces_or_appends_witness:
  "addAlias example_dag ''x'' ''y'' True =
     Inr (2, example_dag\<lparr>nodes := [example_x, example_y, example_y],
                         index := \<lparr>index_list = [0, 2], index_map = [''x'' \<mapsto> 0, ''y'' \<mapsto> 1]\<rparr>\<rparr>)
   \<and> Index_contains (index example_dag) ''y''
   \<and> Index_find (index example_dag) ''y'' < Index_size (index example_dag)
   \<and> index_list (index (example_dag\<lparr>nodes := [example_x, example_y, example_y],
                         index := \<lparr>index_list = [0, 2], index_map = [''x'' \<mapsto> 0, ''y'' \<mapsto> 1]\<rparr>\<rparr>))
       = (index_list (index example_dag))[Index_find (index example_dag) ''y'' := 2]"
proof -
  have h1: "addAlias example_dag ''x'' ''y'' True =
     Inr (2, example_dag\<lparr>nodes := [example_x, example_y, example_y],
                         index := \<lparr>index_list = [0, 2], index_map = [''x'' \<mapsto> 0, ''y'' \<mapsto> 1]\<rparr>\<rparr>)"
    by (simp add: addAlias_def example_dag_def example_x_def example_y_def Index_contains_def
        Index_find_def Index_replace_def Let_def)
  have h2: "Index_contains (index example_dag) ''y'' \<longrightarrow>
              Index_find (index example_dag) ''y'' < Index_size (index example_dag)"
    by (simp add: example_dag_def Index_find_def Index_size_def)
  have h3: "Index_contains (index example_dag) ''y''"
    by (simp add: example_dag_def Index_contains_def)
  from addAlias_replaces_or_appends [OF h1 h2] h1 h2 h3 show ?thesis
    by simp
qed

section \<open>The chain\<close>

text \<open>
  Claim C10. On a chain without steps, \<^verbatim>\<open>getLastActions(true)\<close> returns the null pointer
  and leaves the chain as it is.
\<close>

theorem getLastActions_allow_empty:
  "steps chain = [] \<Longrightarrow> getLastActions chain True = Inr (None, chain)"
  by (simp add: getLastActions_def)

theorem getLastActions_allow_empty_witness:
  "steps (ExpressionActionsChain_new GlobalContext) = []
   \<and> getLastActions (ExpressionActionsChain_new GlobalContext) True
       = Inr (None, ExpressionActionsChain_new GlobalContext)"
  using getLastActions_allow_empty [of "ExpressionActionsChain_new GlobalContext"]
  by (simp add: ExpressionActionsChain_new_def)

text \<open>
  Claim C8, as stated, fails twice. On the chain without steps both accessors throw with
  the code \<^verbatim>\<open>LOGICAL_ERROR\<close>, the kind of a violated invariant, which is not the kind
  \<^emph>\<open>EmptyChain\<close>. And on a chain whose last step is an \<^verbatim>\<open>ArrayJoinStep\<close>,
  \<^verbatim>\<open>getLastActions\<close> does not return: the cast gives the null pointer, which is
  dereferenced.
\<close>

theorem chain_accessors_error_kind:
  "getLastActions (ExpressionActionsChain_new GlobalContext) False
     = Inl (Exception LOGICAL_ERROR ''Empty ExpressionActionsChain'')
   \<and> getLastStep (ExpressionActionsChain_new GlobalContext)
     = Inl (Exception LOGICAL_ERROR ''Empty ExpressionActionsChain'')
   \<and> LOGICAL_ERROR \<noteq> EmptyChain
   \<and> getLastActions
       \<lparr>context = GlobalContext,
        steps = [IsArrayJoinStep
          \<lparr>additional_input = {}, required_output = [], can_remove_required_output = [],
           array_join = None, array_join_required_columns = [],
           array_join_result_columns = []\<rparr>]\<rparr> False
     = Inl UndefinedBehaviour"
  by (simp add: getLastActions_def getLastStep_def ExpressionActionsChain_new_def)

text \<open>
  Claim C8, amended. On a chain without steps, \<^verbatim>\<open>getLastActions()\<close> and
  \<^verbatim>\<open>getLastStep()\<close> throw the exception of code \<^verbatim>\<open>LOGICAL_ERROR\<close> and message
  \<^verbatim>\<open>Empty ExpressionActionsChain\<close>. On a chain with steps, \<^verbatim>\<open>getLastStep()\<close> returns the
  last step, and \<^verbatim>\<open>getLastActions()\<close> returns the DAG pointer of the last step provided
  that step is an \<^verbatim>\<open>ExpressionActionsStep\<close>; the chain stays as it is.
\<close>

theorem chain_accessors:
  "(steps chain = [] \<longrightarrow>
      getLastActions chain False = Inl (Exception LOGICAL_ERROR ''Empty ExpressionActionsChain'')
    \<and> getLastStep chain = Inl (Exception LOGICAL_ERROR ''Empty ExpressionActionsChain''))
   \<and> (steps chain \<noteq> [] \<longrightarrow>
      getLastStep chain = Inr (last (steps chain), chain)
    \<and> (\<forall>step. last (steps chain) = IsExpressionActionsStep step \<longrightarrow>
          getLastActions chain False = Inr (actions_dag step, chain)))"
  by (simp add: getLastActions_def getLastStep_def)

theorem chain_accessors_witness:
  "steps (ExpressionActionsChain_new GlobalContext) = []
   \<and> getLastStep (ExpressionActionsChain_new GlobalContext)
       = Inl (Exception LOGICAL_ERROR ''Empty ExpressionActionsChain'')
   \<and> steps example_chain \<noteq> []
   \<and> last (steps example_chain)
       = IsExpressionActionsStep (ExpressionActionsStep_new (Some example_dag) [])
   \<and> getLastStep example_chain
       = Inr (IsExpressionActionsStep (ExpressionActionsStep_new (Some example_dag) []),
              example_chain)
   \<and> getLastActions example_chain False = Inr (Some example_dag, example_chain)"
  using chain_accessors [of "ExpressionActionsChain_new GlobalContext"]
    chain_accessors [of example_chain]
  by (simp add: ExpressionActionsChain_new_def ExpressionActionsStep_new_def example_chain_def)

lemma addInput_fresh:
  assumes "\<not> Index_contains (index dag) name"
  shows "\<exists>dag'. addInput dag name ty = Inr (length (nodes dag), dag')
     \<and> nodes dag' = nodes dag @
         [\<lparr>children = [], type = INPUT, result_name = name, result_type = ty,
           function_builder = None, function_base = None, function_exec = None,
           is_function_compiled = False, column = None, allow_constant_folding = True\<rparr>]
     \<and> index_list (index dag') = index_list (index dag) @ [length (nodes dag)]
     \<and> dom (index_map (index dag')) = insert name (dom (index_map (index dag)))
     \<and> settings dag' = settings dag"
  using assms by (simp add: addInput_def Let_def Index_insert_list Index_insert_map)

text \<open>
  Inputs of pairwise distinct names, none of them in the index yet, are all added: one
  INPUT node for each, in order, each appended to the index.
\<close>

lemma addInputs_distinct:
  assumes "distinct (map fst inputs)"
    and "set (map fst inputs) \<inter> dom (index_map (index dag)) = {}"
  shows "\<exists>dag'. addInputs dag inputs = Inr dag'
     \<and> map type (nodes dag') = map type (nodes dag) @ replicate (length inputs) INPUT
     \<and> map result_name (nodes dag') = map result_name (nodes dag) @ map fst inputs
     \<and> map result_type (nodes dag') = map result_type (nodes dag) @ map snd inputs
     \<and> index_list (index dag') =
         index_list (index dag) @ [length (nodes dag) ..< length (nodes dag) + length inputs]
     \<and> dom (index_map (index dag')) = dom (index_map (index dag)) \<union> set (map fst inputs)
     \<and> settings dag' = settings dag"
  using assms
proof (induction inputs arbitrary: dag)
  case Nil
  then show ?case by simp
next
  case (Cons input inputs)
  from Cons.prems have fresh: "\<not> Index_contains (index dag) (fst input)"
    by (auto simp: Index_contains_def)
  from addInput_fresh [OF fresh, of "snd input"] obtain dag1 where
    d1: "addInput dag (fst input) (snd input) = Inr (length (nodes dag), dag1)"
      "nodes dag1 = nodes dag @
         [\<lparr>children = [], type = INPUT, result_name = fst input, result_type = snd input,
           function_builder = None, function_base = None, function_exec = None,
           is_function_compiled = False, column = None, allow_constant_folding = True\<rparr>]"
      "index_list (index dag1) = index_list (index dag) @ [length (nodes dag)]"
      "dom (index_map (index dag1)) = insert (fst input) (dom (index_map (index dag)))"
      "settings dag1 = settings dag"
    by blast
  from Cons.prems d1(4) have "distinct (map fst inputs)"
    and "set (map fst inputs) \<inter> dom (index_map (index dag1)) = {}"
    by auto
  from Cons.IH [OF this] obtain dag' where
    d': "addInputs dag1 inputs = Inr dag'"
     "map type (nodes dag') = map type (nodes dag1) @ replicate (length inputs) INPUT"
     "map result_name (nodes dag') = map result_name (nodes dag1) @ map fst inputs"
     "map result_type (nodes dag') = map result_type (nodes dag1) @ map snd inputs"
     "index_list (index dag') =
        index_list (index dag1) @ [length (nodes dag1) ..< length (nodes dag1) + length inputs]"
     "dom (index_map (index dag')) = dom (index_map (index dag1)) \<union> set (map fst inputs)"
     "settings dag' = settings dag1"
    by blast
  have "[length (nodes dag) ..< length (nodes dag) + Suc (length inputs)]
      = length (nodes dag) # [Suc (length (nodes dag)) ..< Suc (length (nodes dag)) + length inputs]"
    by (simp add: upt_rec)
  with d1 d' show ?case
    by (simp add: replicate_app_Cons_same)
qed

text \<open>
  So the constructor modelled from the specification builds a DAG from every column list
  of pairwise distinct names.
\<close>

lemma ActionsDAG_of_inputs_distinct:
  assumes "distinct (map fst inputs)"
  shows "\<exists>dag. ActionsDAG_of_inputs inputs = Inr dag
     \<and> map type (nodes dag) = replicate (length inputs) INPUT
     \<and> map result_name (nodes dag) = map fst inputs
     \<and> map result_type (nodes dag) = map snd inputs
     \<and> index_list (index dag) = [0 ..< length inputs]"
proof -
  have "set (map fst inputs) \<inter> dom (index_map (index ActionsDAG_default)) = {}"
    by (simp add: ActionsDAG_default_def Index_empty_def)
  from addInputs_distinct [OF assms this] obtain dag where
    "addInputs ActionsDAG_default inputs = Inr dag"
    "map type (nodes dag) = map type (nodes ActionsDAG_default) @ replicate (length inputs) INPUT"
    "map result_name (nodes dag) = map result_name (nodes ActionsDAG_default) @ map fst inputs"
    "map result_type (nodes dag) = map result_type (nodes ActionsDAG_default) @ map snd inputs"
    "index_list (index dag) = index_list (index ActionsDAG_default) @
       [length (nodes ActionsDAG_default) ..< length (nodes ActionsDAG_default) + length inputs]"
    by blast
  then show ?thesis
    by (simp add: ActionsDAG_of_inputs_def ActionsDAG_default_def Index_empty_def)
qed

text \<open>
  Claim C9, as stated, fails on a column list that names a column twice: with the
  constructor that adds the columns as inputs one by one, the second \<^verbatim>\<open>x\<close> is a
  duplicate input, and the exception leaves through \<^verbatim>\<open>lastStep\<close>.
\<close>

theorem lastStep_duplicate_columns:
  "lastStep ActionsDAG_of_inputs (ExpressionActionsChain_new GlobalContext)
     [(''x'', DataTypeNumber ''Int32''), (''x'', DataTypeNumber ''Int32'')]
   = (Inl (Exception DuplicateInput ''Column already exists: x''),
      ExpressionActionsChain_new GlobalContext)"
  by (simp add: lastStep_def ExpressionActionsChain_new_def ActionsDAG_of_inputs_def
      ActionsDAG_default_def Index_empty_def addInput_def Index_contains_def Index_insert_def
      Let_def)

text \<open>
  Claim C9, amended. On a chain without steps, \<^verbatim>\<open>lastStep(columns)\<close> raises exactly
  what the constructor of the DAG raises on the columns, and then leaves the chain as it
  is; where the constructor returns a DAG, \<^verbatim>\<open>lastStep\<close> does not raise, the chain then
  consists of the one \<^verbatim>\<open>ExpressionActionsStep\<close> wrapping that DAG, and this step is
  returned. On a chain with steps, \<^verbatim>\<open>lastStep\<close> returns the last step and the chain is
  as before.
\<close>

theorem lastStep_creates_or_returns:
  "(steps chain = [] \<longrightarrow>
      lastStep new_ActionsDAG chain input_columns =
        (case new_ActionsDAG input_columns of
           Inl e \<Rightarrow> (Inl e, chain)
         | Inr dag \<Rightarrow>
             (Inr (IsExpressionActionsStep (ExpressionActionsStep_new (Some dag) [])),
              chain\<lparr>steps :=
                [IsExpressionActionsStep (ExpressionActionsStep_new (Some dag) [])]\<rparr>)))
   \<and> (steps chain \<noteq> [] \<longrightarrow>
      lastStep new_ActionsDAG chain input_columns = (Inr (last (steps chain)), chain))"
  by (simp add: lastStep_def Let_def split: sum.splits)

text \<open>
  With the constructor modelled from the specification: the two columns \<^verbatim>\<open>x\<close> and
  \<^verbatim>\<open>y\<close> give the empty chain its first step, a column list that repeats \<^verbatim>\<open>x\<close> leaves
  it empty, and the example chain returns its own last step.
\<close>

theorem lastStep_creates_or_returns_witness:
  "steps (ExpressionActionsChain_new GlobalContext) = []
   \<and> (\<exists>dag. ActionsDAG_of_inputs
                [(''x'', DataTypeNumber ''Int32''), (''y'', DataTypeNumber ''Int32'')] = Inr dag
          \<and> map result_name (nodes dag) = [''x'', ''y'']
          \<and> lastStep ActionsDAG_of_inputs (ExpressionActionsChain_new GlobalContext)
                [(''x'', DataTypeNumber ''Int32''), (''y'', DataTypeNumber ''Int32'')]
              = (Inr (IsExpressionActionsStep (ExpressionActionsStep_new (Some dag) [])),
                 \<lparr>context = GlobalContext,
                  steps = [IsExpressionActionsStep (ExpressionActionsStep_new (Some dag) [])]\<rparr>))
   \<and> ActionsDAG_of_inputs [(''x'', DataTypeNumber ''Int32''), (''x'', DataTypeNumber ''Int32'')]
       = Inl (Exception DuplicateInput ''Column already exists: x'')
   \<and> lastStep ActionsDAG_of_inputs (ExpressionActionsChain_new GlobalContext)
        [(''x'', DataTypeNumber ''Int32''), (''x'', DataTypeNumber ''Int32'')]
       = (Inl (Exception DuplicateInput ''Column already exists: x''),
          ExpressionActionsChain_new GlobalContext)
   \<and> steps example_chain \<noteq> []
   \<and> lastStep ActionsDAG_of_inputs example_chain
        [(''x'', DataTypeNumber ''Int32''), (''y'', DataTypeNumber ''Int32'')]
       = (Inr (IsExpressionActionsStep (ExpressionActionsStep_new (Some example_dag) [])),
          example_chain)"
proof -
  have "distinct (map fst [(''x'', DataTypeNumber ''Int32''), (''y'', DataTypeNumber ''Int32'')])"
    by simp
  from ActionsDAG_of_inputs_distinct [OF this] obtain dag where
    dag: "ActionsDAG_of_inputs
            [(''x'', DataTypeNumber ''Int32''), (''y'', DataTypeNumber ''Int32'')] = Inr dag"
      "map result_name (nodes dag) = [''x'', ''y'']"
    by auto
  have dup: "ActionsDAG_of_inputs
               [(''x'', DataTypeNumber ''Int32''), (''x'', DataTypeNumber ''Int32'')]
             = Inl (Exception DuplicateInput ''Column already exists: x'')"
    by (simp add: ActionsDAG_of_inputs_def ActionsDAG_default_def Index_empty_def addInput_def
        Index_contains_def Index_insert_def Let_def)
  from lastStep_creates_or_returns [of "ExpressionActionsChain_new GlobalContext"
      ActionsDAG_of_inputs "[(''x'', DataTypeNumber ''Int32''), (''y'', DataTypeNumber ''Int32'')]"]
    lastStep_creates_or_returns [of "ExpressionActionsChain_new GlobalContext"
      ActionsDAG_of_inputs "[(''x'', DataTypeNumber ''Int32''), (''x'', DataTypeNumber ''Int32'')]"]
    lastStep_creates_or_returns [of example_chain ActionsDAG_of_inputs
      "[(''x'', DataTypeNumber ''Int32''), (''y'', DataTypeNumber ''Int32'')]"]
    dag dup
  show ?thesis
    by (auto simp: ExpressionActionsChain_new_def example_chain_def)
qed

text \<open>
  Claim C5. For a step that wraps a DAG: if \<^verbatim>\<open>projected_output\<close> is not set,
  \<^verbatim>\<open>finalize(required)\<close> is the call of \<^verbatim>\<open>removeUnusedActions(required)\<close> on the DAG,
  whose result (or exception) it passes on; if \<^verbatim>\<open>projected_output\<close> is set, as it is
  once \<^verbatim>\<open>project()\<close> has been called, \<^verbatim>\<open>finalize\<close> returns the step as it is,
  whatever \<^verbatim>\<open>removeUnusedActions\<close> would do.
\<close>

theorem finalize_removes_unless_projected:
  assumes "actions_dag step = Some dag"
  shows "(\<not> projected_output (getSettings dag) \<longrightarrow>
            finalize removeUnusedActions step required =
              (case removeUnusedActions dag required of
                 Inl e \<Rightarrow> Inl e
               | Inr dag' \<Rightarrow> Inr (step\<lparr>actions_dag := Some dag'\<rparr>)))
       \<and> (projected_output (getSettings dag) \<longrightarrow>
            finalize removeUnusedActions step required = Inr step)"
  using assms by (simp add: finalize_def)

text \<open>
  On the example DAG, which is not projected, \<^verbatim>\<open>finalize\<close> hands the DAG to the
  function it is given (here one that empties the index); with \<^verbatim>\<open>projected_output\<close>
  set in the settings of the same DAG, \<^verbatim>\<open>finalize\<close> leaves the step alone.
\<close>

theorem finalize_removes_unless_projected_witness:
  "actions_dag (ExpressionActionsStep_new (Some example_dag) []) = Some example_dag
   \<and> \<not> projected_output (getSettings example_dag)
   \<and> finalize (\<lambda>dag required. Inr (dag\<lparr>index := Index_empty\<rparr>))
        (ExpressionActionsStep_new (Some example_dag) []) [''y'']
       = Inr (ExpressionActionsStep_new (Some (example_dag\<lparr>index := Index_empty\<rparr>)) [])
   \<and> projected_output (getSettings example_projected_dag)
   \<and> finalize (\<lambda>dag required. Inr (dag\<lparr>index := Index_empty\<rparr>))
        (ExpressionActionsStep_new (Some example_projected_dag) []) [''y'']
       = Inr (ExpressionActionsStep_new (Some example_projected_dag) [])"
proof -
  have a: "actions_dag (ExpressionActionsStep_new (Some example_projected_dag) [])
             = Some example_projected_dag"
    by (simp add: ExpressionActionsStep_new_def)
  have b: "actions_dag (ExpressionActionsStep_new (Some example_dag) []) = Some example_dag"
    by (simp add: ExpressionActionsStep_new_def)
  have c: "\<not> projected_output (getSettings example_dag)"
    by (simp add: getSettings_def example_dag_def ActionsSettings_default_def)
  have d: "projected_output (getSettings example_projected_dag)"
    by (simp add: getSettings_def example_projected_dag_def)
  from finalize_removes_unless_projected
         [OF a, of "\<lambda>dag required. Inr (dag\<lparr>index := Index_empty\<rparr>)" "[''y'']"]
    finalize_removes_unless_projected
         [OF b, of "\<lambda>dag required. Inr (dag\<lparr>index := Index_empty\<rparr>)" "[''y'']"]
    b c d
  show ?thesis
    by (auto simp: ExpressionActionsStep_new_def)
qed

section \<open>Execution of a plan\<close>

subsection \<open>Limits\<close>

lemma executeActions_append:
  "executeActions executable ea (as @ bs) ctx dry_run =
     (case executeActions executable ea as ctx dry_run of
        Inl e \<Rightarrow> Inl e
      | Inr ctx' \<Rightarrow> executeActions executable ea bs ctx' dry_run)"
  by (induction as arbitrary: ctx) (auto split: sum.splits)

lemma executeActions_last_checked:
  assumes "executeActions executable ea (before @ [action]) ctx dry_run = Inr ctx'"
  shows "checkLimits ea (columns ctx') = Inr ()"
  using assms
  by (auto simp: executeActions_append split: sum.splits)

lemma checkLimits_ok:
  assumes "checkLimits ea cols = Inr ()" and "ExpressionActions.actions_dag ea = Some dag"
  shows "0 < max_temporary_columns (getSettings dag) \<Longrightarrow>
           live_columns cols \<le> max_temporary_columns (getSettings dag)"
    and "0 < max_temporary_non_const_columns (getSettings dag) \<Longrightarrow>
           non_const_columns cols \<le> max_temporary_non_const_columns (getSettings dag)"
  using assms by (auto simp: checkLimits_def split: if_splits)

text \<open>
  Claim C3. Take a plan with its DAG and any run of \<^verbatim>\<open>execute\<close>. If
  \<^verbatim>\<open>max_temporary_columns\<close> is positive, then after each action that the run gets
  through (with its check) the number of live columns is at most the limit; and if the
  state that an action of the plan leaves exceeds the limit, \<^verbatim>\<open>execute\<close> fails with
  \<^emph>\<open>TooManyTemporaryColumns\<close>. The same holds of the non-constant columns, the limit
  \<^verbatim>\<open>max_temporary_non_const_columns\<close> and \<^emph>\<open>TooManyTemporaryNonConstColumns\<close>, where
  the limit on all columns, which is checked first, is not exceeded as well.
\<close>

theorem limits_enforced:
  assumes "ExpressionActions.actions_dag ea = Some dag"
  shows "(0 < max_temporary_columns (getSettings dag) \<longrightarrow>
           (\<forall>ctx ctx'. executeActions executable ea (before @ [action]) ctx dry_run = Inr ctx' \<longrightarrow>
              live_columns (columns ctx') \<le> max_temporary_columns (getSettings dag))
         \<and> (\<forall>ctx0 ctx1 ctx2.
              initialContext ea block rows = Inr ctx0
              \<and> actions ea = before @ action # rest
              \<and> executeActions executable ea before ctx0 dry_run = Inr ctx1
              \<and> executeAction executable ea action ctx1 dry_run = Inr ctx2
              \<and> max_temporary_columns (getSettings dag) < live_columns (columns ctx2) \<longrightarrow>
              execute executable ea block rows dry_run =
                Inl (Exception TooManyTemporaryColumns ''Too many temporary columns'')))
       \<and> (0 < max_temporary_non_const_columns (getSettings dag) \<longrightarrow>
           (\<forall>ctx ctx'. executeActions executable ea (before @ [action]) ctx dry_run = Inr ctx' \<longrightarrow>
              non_const_columns (columns ctx') \<le> max_temporary_non_const_columns (getSettings dag))
         \<and> (\<forall>ctx0 ctx1 ctx2.
              initialContext ea block rows = Inr ctx0
              \<and> actions ea = before @ action # rest
              \<and> executeActions executable ea before ctx0 dry_run = Inr ctx1
              \<and> executeAction executable ea action ctx1 dry_run = Inr ctx2
              \<and> (max_temporary_columns (getSettings dag) = 0
                 \<or> live_columns (columns ctx2) \<le> max_temporary_columns (getSettings dag))
              \<and> max_temporary_non_const_columns (getSettings dag) < non_const_columns (columns ctx2) \<longrightarrow>
              execute executable ea block rows dry_run =
                Inl (Exception TooManyTemporaryNonConstColumns
                       ''Too many temporary non-const columns'')))"
proof (intro conjI impI allI)
  fix ctx ctx'
  assume "0 < max_temporary_columns (getSettings dag)"
    and "executeActions executable ea (before @ [action]) ctx dry_run = Inr ctx'"
  with checkLimits_ok(1) [OF executeActions_last_checked assms]
  show "live_columns (columns ctx') \<le> max_temporary_columns (getSettings dag)" by blast
next
  fix ctx ctx'
  assume "0 < max_temporary_non_const_columns (getSettings dag)"
    and "executeActions executable ea (before @ [action]) ctx dry_run = Inr ctx'"
  with checkLimits_ok(2) [OF executeActions_last_checked assms]
  show "non_const_columns (columns ctx') \<le> max_temporary_non_const_columns (getSettings dag)"
    by blast
next
  fix ctx0 ctx1 ctx2
  assume "0 < max_temporary_columns (getSettings dag)"
    and "initialContext ea block rows = Inr ctx0
              \<and> actions ea = before @ action # rest
              \<and> executeActions executable ea before ctx0 dry_run = Inr ctx1
              \<and> executeAction executable ea action ctx1 dry_run = Inr ctx2
              \<and> max_temporary_columns (getSettings dag) < live_columns (columns ctx2)"
  with assms show "execute executable ea block rows dry_run =
                Inl (Exception TooManyTemporaryColumns ''Too many temporary columns'')"
    by (simp add: execute_def executeActions_append checkLimits_def)
next
  fix ctx0 ctx1 ctx2
  assume "0 < max_temporary_non_const_columns (getSettings dag)"
    and "initialContext ea block rows = Inr ctx0
              \<and> actions ea = before @ action # rest
              \<and> executeActions executable ea before ctx0 dry_run = Inr ctx1
              \<and> executeAction executable ea action ctx1 dry_run = Inr ctx2
              \<and> (max_temporary_columns (getSettings dag) = 0
                 \<or> live_columns (columns ctx2) \<le> max_temporary_columns (getSettings dag))
              \<and> max_temporary_non_const_columns (getSettings dag) < non_const_columns (columns ctx2)"
  with assms show "execute executable ea block rows dry_run =
                Inl (Exception TooManyTemporaryNonConstColumns
                       ''Too many temporary non-const columns'')"
    by (auto simp: execute_def executeActions_append checkLimits_def)
qed

text \<open>
  The example plan under the limit 2: after the first alias two columns are live, the
  second alias leaves three, and \<^verbatim>\<open>execute\<close> fails.
\<close>

theorem limits_enforced_witness:
  "ExpressionActions.actions_dag (example_plan 2) = Some (example_plan_dag 2)
   \<and> 0 < max_temporary_columns (getSettings (example_plan_dag 2))
   \<and> actions (example_plan 2) = [example_alias_y] @ example_alias_z # []
   \<and> (\<exists>ctx0 ctx1 ctx2.
         initialContext (example_plan 2) example_block 3 = Inr ctx0
       \<and> executeActions no_functions (example_plan 2) ([] @ [example_alias_y]) ctx0 False = Inr ctx1
       \<and> live_columns (columns ctx1) \<le> max_temporary_columns (getSettings (example_plan_dag 2))
       \<and> executeAction no_functions (example_plan 2) example_alias_z ctx1 False = Inr ctx2
       \<and> max_temporary_columns (getSettings (example_plan_dag 2)) < live_columns (columns ctx2))
   \<and> execute no_functions (example_plan 2) example_block 3 False
       = Inl (Exception TooManyTemporaryColumns ''Too many temporary columns'')"
proof -
  let ?x = "\<lparr>col_column = Some (ColumnFull [Int64 1, Int64 2, Int64 3]),
             col_type = DataTypeNumber ''Int32'', col_name = ''x''\<rparr>"
  let ?y = "\<lparr>col_column = Some (ColumnFull [Int64 1, Int64 2, Int64 3]),
             col_type = DataTypeNumber ''Int32'', col_name = ''y''\<rparr>"
  let ?z = "\<lparr>col_column = Some (ColumnFull [Int64 1, Int64 2, Int64 3]),
             col_type = DataTypeNumber ''Int32'', col_name = ''z''\<rparr>"
  let ?ctx0 = "\<lparr>columns = [Some ?x, None, None], num_rows = 3\<rparr>"
  let ?ctx1 = "\<lparr>columns = [Some ?x, Some ?y, None], num_rows = 3\<rparr>"
  let ?ctx2 = "\<lparr>columns = [Some ?x, Some ?y, Some ?z], num_rows = 3\<rparr>"
  have d: "ExpressionActions.actions_dag (example_plan 2) = Some (example_plan_dag 2)"
    by (simp add: example_plan_def)
  have m: "0 < max_temporary_columns (getSettings (example_plan_dag 2))"
    by (simp add: example_plan_dag_def getSettings_def)
  have a: "actions (example_plan 2) = [example_alias_y] @ example_alias_z # []"
    by (simp add: example_plan_def)
  have i: "initialContext (example_plan 2) example_block 3 = Inr ?ctx0"
    by code_simp
  have r1: "executeActions no_functions (example_plan 2) [example_alias_y] ?ctx0 False = Inr ?ctx1"
    by code_simp
  have r2: "executeAction no_functions (example_plan 2) example_alias_z ?ctx1 False = Inr ?ctx2"
    by code_simp
  have l2: "max_temporary_columns (getSettings (example_plan_dag 2)) < live_columns (columns ?ctx2)"
    by code_simp
  note th = limits_enforced [OF d, where before = "[example_alias_y]" and action = example_alias_z
      and rest = "[]" and block = example_block and rows = 3 and dry_run = False
      and executable = no_functions]
  from th m i a r1 r2 l2
  have f: "execute no_functions (example_plan 2) example_block 3 False
       = Inl (Exception TooManyTemporaryColumns ''Too many temporary columns'')"
    by blast
  note th0 = limits_enforced [OF d, where before = "[]" and action = example_alias_y
      and dry_run = False and executable = no_functions]
  from th0 m r1
  have l1: "live_columns (columns ?ctx1) \<le> max_temporary_columns (getSettings (example_plan_dag 2))"
    by (metis append_Nil)
  from d m a i r1 r2 l1 l2 f show ?thesis
    by (metis append_Nil)
qed

subsection \<open>The schema of the result\<close>

text \<open>
  The run on names and types follows the run on columns: what the slots of the working
  array hold of names and types is, step by step, what the sample run computes.
\<close>

lemma getArguments_map:
  "getArguments (map (map_option f) cols) as =
     (case getArguments cols as of Inl e \<Rightarrow> Inl e | Inr cs \<Rightarrow> Inr (map f cs))"
  by (induction as) (auto split: option.splits sum.splits)

lemma map_option_update_None:
  "(map (map_option f) cols)[i := None] = map (map_option f) (cols[i := None])"
  by (simp add: map_update)

lemma freeArguments_map:
  "freeArguments (map (map_option f) cols) as = map (map_option f) (freeArguments cols as)"
  by (induction as arbitrary: cols) (simp_all add: map_option_update_None)

lemma slotSchema_freeArguments:
  "slotSchema (freeArguments cols as) = freeArguments (slotSchema cols) as"
  by (simp add: slotSchema_def freeArguments_map)

lemma slotSchema_update:
  "slotSchema (cols[i := Some c]) = (slotSchema cols)[i := Some (col_name c, col_type c)]"
  by (simp add: slotSchema_def map_update)

lemma rebuildBlock_map:
  "rebuildBlock (map (map_option f) cols) ps =
     (case rebuildBlock cols ps of Inl e \<Rightarrow> Inl e | Inr cs \<Rightarrow> Inr (map f cs))"
  by (induction ps) (auto split: option.splits sum.splits)

lemma slotSchema_replicate:
  "slotSchema (map (map_option (replicateSlot lens)) cols) = slotSchema cols"
  by (simp add: slotSchema_def replicateSlot_def option.map_comp comp_def)

lemma findColumn_name: "findColumn block name = Some c \<Longrightarrow> col_name c = name"
  by (auto simp: findColumn_def dest: find_Some_iff [THEN iffD1])


lemma findColumn_filter:
  "P name \<Longrightarrow> findColumn (filter (\<lambda>c. P (col_name c)) block) name = findColumn block name"
  by (induction block) (auto simp: findColumn_def)

lemma checkRequiredColumns_type:
  assumes "checkRequiredColumns req block = Inr ()" and "r \<in> set req"
  shows "\<exists>c. findColumn block (fst r) = Some c \<and> col_type c = snd r"
  using assms
  by (induction req) (auto split: option.splits if_splits)

lemma computeAction_schema:
  assumes "computeAction executable n args ctx dry_run = Inr (res, ty, cols, rows)"
  shows "slotSchema cols = slotSchema (columns ctx)"
    and "sampleCompute n (map (\<lambda>c. (col_name c, col_type c)) args) = Inr ty"
  using assms
  by (auto simp: computeAction_def sampleCompute_def slotSchema_replicate
      split: ActionType.splits list.splits IDataType.splits option.splits if_splits)

lemma executeAction_schema:
  assumes "executeAction executable ea action ctx dry_run = Inr ctx'"
  shows "sampleAction ea action (slotSchema (columns ctx)) = Inr (slotSchema (columns ctx'))"
proof -
  from assms obtain dag where dag: "ExpressionActions.actions_dag ea = Some dag"
    by (auto simp: executeAction_def split: option.splits)
  from assms dag have bounds: "\<not> (length (getNodes dag) \<le> node action
      \<or> length (columns ctx) \<le> result_position action)"
    by (auto simp: executeAction_def split: if_splits)
  from assms dag bounds obtain args where
    args: "getArguments (columns ctx) (arguments action) = Inr args"
    by (auto simp: executeAction_def split: sum.splits)
  from assms dag bounds args obtain res ty cols rows where
    comp: "computeAction executable (getNodes dag ! node action) args ctx dry_run
             = Inr (res, ty, cols, rows)"
    and ctx': "ctx' = \<lparr>columns =
                 freeArguments
                   (cols[result_position action :=
                      Some \<lparr>col_column = res,
                            col_type = ty,
                            col_name = result_name (getNodes dag ! node action)\<rparr>])
                   (arguments action),
               num_rows = rows\<rparr>"
    by (auto simp: executeAction_def split: sum.splits)
  note cs = computeAction_schema [OF comp]
  have ga: "getArguments (slotSchema (columns ctx)) (arguments action)
              = Inr (map (\<lambda>c. (col_name c, col_type c)) args)"
    by (simp add: slotSchema_def getArguments_map args)
  have upd: "slotSchema (columns ctx') =
      freeArguments
        ((slotSchema (columns ctx))[result_position action :=
           Some (result_name (getNodes dag ! node action), ty)])
        (arguments action)"
    using cs(1) by (simp add: ctx' slotSchema_freeArguments slotSchema_update)
  from bounds have "\<not> (length (getNodes dag) \<le> node action
      \<or> length (slotSchema (columns ctx)) \<le> result_position action)"
    by (simp add: slotSchema_def)
  with dag ga cs(2) upd show ?thesis
    by (simp add: sampleAction_def)
qed

lemma executeActions_schema:
  assumes "executeActions executable ea as ctx dry_run = Inr ctx'"
  shows "sampleActions ea as (slotSchema (columns ctx)) = Inr (slotSchema (columns ctx'))"
  using assms
proof (induction as arbitrary: ctx)
  case Nil
  then show ?case by simp
next
  case (Cons a as)
  from Cons.prems obtain ctx1 where
    s1: "executeAction executable ea a ctx dry_run = Inr ctx1"
    and rest: "executeActions executable ea as ctx1 dry_run = Inr ctx'"
    by (auto split: sum.splits)
  from executeAction_schema [OF s1] Cons.IH [OF rest] show ?case by simp
qed

lemma placeInputs_schema:
  assumes "placeInputs block1 req i cols = Inr cols'"
    and "\<forall>r \<in> set req. \<exists>c. findColumn block1 (fst r) = Some c \<and> col_type c = snd r"
  shows "placeRequired req i (slotSchema cols) = Inr (slotSchema cols')"
  using assms
proof (induction req arbitrary: i cols)
  case Nil
  then show ?case by simp
next
  case (Cons r req)
  from Cons.prems(2) obtain c where c: "findColumn block1 (fst r) = Some c" "col_type c = snd r"
    by auto
  from findColumn_name [OF c(1)] c(2) have h: "(col_name c, col_type c) = r" by (cases r) simp
  from Cons.prems(1) c have i: "\<not> length cols \<le> i"
    and rest: "placeInputs block1 req (Suc i) (cols[i := Some c]) = Inr cols'"
    by (auto split: if_splits)
  from Cons.prems(2) have "\<forall>r \<in> set req. \<exists>c. findColumn block1 (fst r) = Some c \<and> col_type c = snd r"
    by simp
  from Cons.IH [OF rest this] i h show ?case
    by (simp add: slotSchema_def map_update)
qed

text \<open>
  So whatever block \<^verbatim>\<open>execute\<close> runs on, with or without data of the right types: if
  it succeeds, the columns that it adds have the schema that the sample run computes from
  the plan alone.
\<close>

lemma execute_sampleSchema:
  assumes "execute executable ea block rows dry_run = Inr (block', rows')"
  shows "\<exists>result. block' = remainingColumns ea block @ result
           \<and> sampleSchema ea = Inr (schema result)"
proof -
  from assms obtain ctx where ic: "initialContext ea block rows = Inr ctx"
    by (auto simp: execute_def split: sum.splits)
  from assms ic obtain ctx' result where
    run: "executeActions executable ea (actions ea) ctx dry_run = Inr ctx'"
    and rb: "rebuildBlock (columns ctx') (result_positions ea) = Inr result"
    and block': "block' = remainingColumns ea block @ result"
    by (auto simp: execute_def split: sum.splits)
  from ic obtain dag where dag: "ExpressionActions.actions_dag ea = Some dag"
    by (auto simp: initialContext_def split: option.splits)
  let ?block1 = "if project_input (getSettings dag)
                 then filter (\<lambda>c. col_name c \<in> set (map fst (required_columns ea))) block
                 else block"
  from ic dag have chk: "checkRequiredColumns (required_columns ea) block = Inr ()"
    and pl: "placeInputs ?block1 (required_columns ea) 0 (replicate (num_columns ea) None)
               = Inr (columns ctx)"
    by (auto simp: initialContext_def split: sum.splits)
  have "\<forall>r \<in> set (required_columns ea).
          \<exists>c. findColumn ?block1 (fst r) = Some c \<and> col_type c = snd r"
  proof
    fix r assume r: "r \<in> set (required_columns ea)"
    then have "fst r \<in> set (map fst (required_columns ea))" by simp
    from findColumn_filter [of "\<lambda>n. n \<in> set (map fst (required_columns ea))", OF this]
    have "findColumn ?block1 (fst r) = findColumn block (fst r)" by simp
    with checkRequiredColumns_type [OF chk r]
    show "\<exists>c. findColumn ?block1 (fst r) = Some c \<and> col_type c = snd r" by simp
  qed
  from placeInputs_schema [OF pl this]
  have p: "placeRequired (required_columns ea) 0 (replicate (num_columns ea) None)
             = Inr (slotSchema (columns ctx))"
    by (simp add: slotSchema_def)
  have r: "rebuildBlock (slotSchema (columns ctx')) (result_positions ea) = Inr (schema result)"
    by (simp add: slotSchema_def rebuildBlock_map rb schema_def)
  from p executeActions_schema [OF run] r block' show ?thesis
    by (simp add: sampleSchema_def)
qed




























end
